theory Spec2Isabelle
  imports Main
begin

section \<open>Python values, text and exceptions\<close>

text \<open>
  The program is \<^verbatim>\<open>src/todo_python/main.py\<close>: a \<^verbatim>\<open>Task\<close> class, a
  \<^verbatim>\<open>TaskStorage\<close> that writes and reads a JSON file per user, a login window and the
  application object \<^verbatim>\<open>ToDoApp\<close> whose button handlers change the task list.

  A Python \<^verbatim>\<open>str\<close> is a \<open>string\<close>; a \<open>char\<close> stands for the code point of the same
  number, so the model covers the code points below 256 and the character classes below are
  Python's on that range. The exceptions that the program can meet are values of
  \<open>py_error\<close>; a function that may raise returns \<open>py_error + 'a\<close>.
\<close>

datatype py_error =
    JSONDecodeError | KeyError | TypeError | IndexError | ValueError
  | UnicodeDecodeError | RecursionError

text \<open>
  What \<^verbatim>\<open>json.load\<close> can return, which is also everything a field of a task can hold:
  \<^verbatim>\<open>None\<close>, a bool, an int, a float (kept as its literal, no code path computes with
  it), a str, a list, or a dict with str keys (its items in insertion order).
\<close>

datatype pyval =
    PyNone
  | PyBool bool
  | PyInt int
  | PyFloat string
  | PyStr string
  | PyList "pyval list"
  | PyDict "(string \<times> pyval) list"

definition code_point :: "char \<Rightarrow> nat" where
  "code_point c = of_char c"

definition in_range :: "nat \<Rightarrow> nat \<Rightarrow> char \<Rightarrow> bool" where
  "in_range lo hi c = (lo \<le> code_point c \<and> code_point c \<le> hi)"

text \<open>\<^verbatim>\<open>str.isspace\<close> on one character: TAB..CR, FS..US, space, NEL, NBSP.\<close>

definition isspace :: "char \<Rightarrow> bool" where
  "isspace c = (in_range 9 13 c \<or> in_range 28 32 c \<or> code_point c = 133 \<or> code_point c = 160)"

text \<open>\<^verbatim>\<open>str.isdecimal\<close>, which is also the regular expression class \<^verbatim>\<open>\d\<close>.\<close>

definition isdecimal :: "char \<Rightarrow> bool" where
  "isdecimal c = in_range 48 57 c"

definition isalpha :: "char \<Rightarrow> bool" where
  "isalpha c = (in_range 65 90 c \<or> in_range 97 122 c \<or> code_point c = 170 \<or> code_point c = 181
     \<or> code_point c = 186 \<or> in_range 192 214 c \<or> in_range 216 246 c \<or> in_range 248 255 c)"

definition isdigit :: "char \<Rightarrow> bool" where
  "isdigit c = (isdecimal c \<or> in_range 178 179 c \<or> code_point c = 185)"

definition isnumeric :: "char \<Rightarrow> bool" where
  "isnumeric c = (isdigit c \<or> in_range 188 190 c)"

text \<open>A character is alphanumeric if it is alphabetic, decimal, a digit or numeric.\<close>

definition isalnum_char :: "char \<Rightarrow> bool" where
  "isalnum_char c = (isalpha c \<or> isdecimal c \<or> isdigit c \<or> isnumeric c)"

text \<open>\<^verbatim>\<open>str.isalnum\<close>: every character is alphanumeric and there is at least one.\<close>

definition isalnum :: "string \<Rightarrow> bool" where
  "isalnum s = (s \<noteq> [] \<and> list_all isalnum_char s)"

text \<open>\<^verbatim>\<open>str.strip()\<close>: drops the whitespace at both ends.\<close>

definition strip :: "string \<Rightarrow> string" where
  "strip s = rev (dropWhile isspace (rev (dropWhile isspace s)))"

section \<open>\<^verbatim>\<open>datetime.strptime(date_str, "%Y-%m-%d")\<close>\<close>

text \<open>
  \<^verbatim>\<open>validate_date\<close> calls the standard library. \<^verbatim>\<open>_strptime\<close> turns the format into
  the regular expression
  \<^verbatim>\<open>(?P<Y>\d\d\d\d)-(?P<m>1[0-2]|0[1-9]|[1-9])-(?P<d>3[0-1]|[1-2]\d|0[1-9]|[1-9]| [1-9])\<close>,
  matches it at the start of the text, raises \<^verbatim>\<open>ValueError\<close> when there is no match or
  when text remains after the match, converts the three groups with \<^verbatim>\<open>int\<close> and builds
  \<^verbatim>\<open>datetime.date(year, month, day)\<close>, which raises \<^verbatim>\<open>ValueError\<close> for a year
  outside 1..9999 or a day that the month does not have.

  A pattern is a list of character classes; a group is a list of alternative patterns. A
  matcher returns every way to match a prefix, in the order in which the backtracking engine
  tries them, each with the text that is left.
\<close>

fun match_seq :: "(char \<Rightarrow> bool) list \<Rightarrow> string \<Rightarrow> (string \<times> string) option" where
  "match_seq [] s = Some ([], s)"
| "match_seq (p # ps) [] = None"
| "match_seq (p # ps) (c # s) =
     (if p c then (case match_seq ps s of None \<Rightarrow> None | Some (m, r) \<Rightarrow> Some (c # m, r))
      else None)"

definition match_group :: "(char \<Rightarrow> bool) list list \<Rightarrow> string \<Rightarrow> (string \<times> string) list" where
  "match_group alts s = List.map_filter (\<lambda>ps. match_seq ps s) alts"

definition lit :: "char \<Rightarrow> char \<Rightarrow> bool" where
  "lit a c = (c = a)"

definition cls :: "char \<Rightarrow> char \<Rightarrow> char \<Rightarrow> bool" where
  "cls a b c = in_range (code_point a) (code_point b) c"

definition directive_Y :: "(char \<Rightarrow> bool) list list" where
  "directive_Y = [[isdecimal, isdecimal, isdecimal, isdecimal]]"

definition directive_m :: "(char \<Rightarrow> bool) list list" where
  "directive_m =
     [[lit CHR ''1'', cls CHR ''0'' CHR ''2''],
      [lit CHR ''0'', cls CHR ''1'' CHR ''9''],
      [cls CHR ''1'' CHR ''9'']]"

definition directive_d :: "(char \<Rightarrow> bool) list list" where
  "directive_d =
     [[lit CHR ''3'', cls CHR ''0'' CHR ''1''],
      [cls CHR ''1'' CHR ''2'', isdecimal],
      [lit CHR ''0'', cls CHR ''1'' CHR ''9''],
      [cls CHR ''1'' CHR ''9''],
      [lit CHR '' '', cls CHR ''1'' CHR ''9'']]"

text \<open>
  All matches of the whole expression, in the engine's order: the groups of a match and the
  unconverted rest. \<^verbatim>\<open>re.match\<close> returns the first.
\<close>

definition format_regex :: "string \<Rightarrow> (string \<times> string \<times> string \<times> string) list" where
  "format_regex s =
     concat (map (\<lambda>(gY, r1).
       concat (map (\<lambda>(_, r2).
         concat (map (\<lambda>(gm, r3).
           concat (map (\<lambda>(_, r4).
             map (\<lambda>(gd, r5). (gY, gm, gd, r5)) (match_group directive_d r4))
             (match_group [[lit CHR ''-'']] r3)))
           (match_group directive_m r2)))
         (match_group [[lit CHR ''-'']] r1)))
       (match_group directive_Y s))"

text \<open>\<^verbatim>\<open>int(text)\<close> on a text of decimal digits with blanks around it.\<close>

definition py_int :: "string \<Rightarrow> nat" where
  "py_int s = foldl (\<lambda>n c. 10 * n + (code_point c - 48)) 0 (strip s)"

definition is_leap :: "nat \<Rightarrow> bool" where
  "is_leap y = (y mod 4 = 0 \<and> (y mod 100 \<noteq> 0 \<or> y mod 400 = 0))"

definition days_in_month :: "nat \<Rightarrow> nat \<Rightarrow> nat" where
  "days_in_month y m =
     (if m = 2 \<and> is_leap y then 29
      else [31, 28, 31, 30, 31, 30, 31, 31, 30, 31, 30, 31] ! (m - 1))"

text \<open>\<^verbatim>\<open>datetime.date(year, month, day)\<close>: the check of its three fields.\<close>

definition datetime_date :: "nat \<Rightarrow> nat \<Rightarrow> nat \<Rightarrow> py_error + (nat \<times> nat \<times> nat)" where
  "datetime_date y m d =
     (if \<not> (1 \<le> y \<and> y \<le> 9999) then Inl ValueError
      else if \<not> (1 \<le> m \<and> m \<le> 12) then Inl ValueError
      else if \<not> (1 \<le> d \<and> d \<le> days_in_month y m) then Inl ValueError
      else Inr (y, m, d))"

definition strptime :: "string \<Rightarrow> py_error + (nat \<times> nat \<times> nat)" where
  "strptime data_string =
     (case format_regex data_string of
        [] \<Rightarrow> Inl ValueError
      | (gY, gm, gd, rest) # _ \<Rightarrow>
          if rest \<noteq> [] then Inl ValueError
          else datetime_date (py_int gY) (py_int gm) (py_int gd))"

text \<open>\<^verbatim>\<open>ToDoApp.validate_date\<close>: the empty text is allowed, any other must parse.\<close>

definition validate_date :: "string \<Rightarrow> bool" where
  "validate_date date_str =
     (if date_str = [] then True
      else (case strptime date_str of Inr _ \<Rightarrow> True | Inl _ \<Rightarrow> False))"

section \<open>\<^verbatim>\<open>Task\<close>\<close>

text \<open>
  The five attributes of a \<^verbatim>\<open>Task\<close> object. The constructor stores what it is given: a
  task read from a file holds whatever values the file had under the five keys.
\<close>

record task =
  name :: pyval
  priority :: pyval
  due_date :: pyval
  category :: pyval
  status :: pyval

definition Task :: "pyval \<Rightarrow> pyval \<Rightarrow> pyval \<Rightarrow> pyval \<Rightarrow> pyval \<Rightarrow> task" where
  "Task n p d c st = \<lparr>name = n, priority = p, due_date = d, category = c, status = st\<rparr>"

definition to_dict :: "task \<Rightarrow> pyval" where
  "to_dict t =
     PyDict [(''name'', name t), (''priority'', priority t), (''due_date'', due_date t),
             (''category'', category t), (''status'', status t)]"

text \<open>
  \<^verbatim>\<open>data[key]\<close> with a str key. A dict gives the value of the key (the last one stored
  under it) or raises \<^verbatim>\<open>KeyError\<close>; a list or a str wants an integer index, and the other
  values cannot be subscripted: \<^verbatim>\<open>TypeError\<close>.
\<close>

fun getitem :: "pyval \<Rightarrow> string \<Rightarrow> py_error + pyval" where
  "getitem (PyDict kvs) k = (case map_of (rev kvs) k of None \<Rightarrow> Inl KeyError | Some v \<Rightarrow> Inr v)"
| "getitem _ k = Inl TypeError"

definition from_dict :: "pyval \<Rightarrow> py_error + task" where
  "from_dict data =
     (case getitem data ''name'' of Inl e \<Rightarrow> Inl e | Inr n \<Rightarrow>
     (case getitem data ''priority'' of Inl e \<Rightarrow> Inl e | Inr p \<Rightarrow>
     (case getitem data ''due_date'' of Inl e \<Rightarrow> Inl e | Inr d \<Rightarrow>
     (case getitem data ''category'' of Inl e \<Rightarrow> Inl e | Inr c \<Rightarrow>
     (case getitem data ''status'' of Inl e \<Rightarrow> Inl e | Inr st \<Rightarrow>
        Inr (Task n p d c st))))))"

section \<open>\<^verbatim>\<open>TaskStorage\<close>\<close>

text \<open>
  The \<^verbatim>\<open>json\<close> module is the standard library's. A file is modelled by what reading it
  with \<^verbatim>\<open>open(filename, 'r')\<close> and \<^verbatim>\<open>json.load\<close> makes of it:
  \<^item> its bytes are not text in the encoding of the locale: reading raises
    \<^verbatim>\<open>UnicodeDecodeError\<close>;
  \<^item> its text is not JSON (empty, truncated, ...): \<^verbatim>\<open>JSONDecodeError\<close>;
  \<^item> its text is JSON nested deeper than the interpreter's recursion limit:
    \<^verbatim>\<open>RecursionError\<close>;
  \<^item> its text is JSON with an integer of more digits than the conversion limit:
    \<^verbatim>\<open>ValueError\<close>;
  \<^item> its text is the JSON text of a value, which \<^verbatim>\<open>json.load\<close> returns.

  \<^verbatim>\<open>json.dump\<close> writes the text of the value it is given. The disk maps a file name to
  the file's content; a name that is not mapped does not exist.
\<close>

datatype file_content =
    Undecodable
  | Not_JSON
  | Too_deeply_nested
  | Integer_too_long
  | JSON_text pyval

type_synonym disk = "string \<rightharpoonup> file_content"

definition json_dump :: "pyval \<Rightarrow> file_content" where
  "json_dump v = JSON_text v"

fun json_load :: "file_content \<Rightarrow> py_error + pyval" where
  "json_load Undecodable = Inl UnicodeDecodeError"
| "json_load Not_JSON = Inl JSONDecodeError"
| "json_load Too_deeply_nested = Inl RecursionError"
| "json_load Integer_too_long = Inl ValueError"
| "json_load (JSON_text v) = Inr v"

record TaskStorage =
  username :: string
  filename :: string

definition TaskStorage_init :: "string \<Rightarrow> TaskStorage" where
  "TaskStorage_init u = \<lparr>username = u, filename = u @ ''_tasks.json''\<rparr>"

definition save_tasks :: "TaskStorage \<Rightarrow> task list \<Rightarrow> disk \<Rightarrow> disk" where
  "save_tasks st ts dsk = dsk(filename st \<mapsto> json_dump (PyList (map to_dict ts)))"

text \<open>
  \<^verbatim>\<open>for item in data\<close>: a list gives its elements, a dict its keys, a str its characters
  as strs of length one; nothing else can be iterated.
\<close>

fun iterate :: "pyval \<Rightarrow> py_error + pyval list" where
  "iterate (PyList xs) = Inr xs"
| "iterate (PyDict kvs) = Inr (map (\<lambda>kv. PyStr (fst kv)) kvs)"
| "iterate (PyStr s) = Inr (map (\<lambda>c. PyStr [c]) s)"
| "iterate _ = Inl TypeError"

text \<open>The list comprehension: the elements in order, stopping at the first exception.\<close>

fun from_dict_each :: "pyval list \<Rightarrow> py_error + task list" where
  "from_dict_each [] = Inr []"
| "from_dict_each (item # items) =
     (case from_dict item of
        Inl e \<Rightarrow> Inl e
      | Inr t \<Rightarrow> (case from_dict_each items of Inl e \<Rightarrow> Inl e | Inr ts \<Rightarrow> Inr (t # ts)))"

definition load_body :: "file_content \<Rightarrow> py_error + task list" where
  "load_body content =
     (case json_load content of
        Inl e \<Rightarrow> Inl e
      | Inr data \<Rightarrow> (case iterate data of Inl e \<Rightarrow> Inl e | Inr items \<Rightarrow> from_dict_each items))"

text \<open>
  \<^verbatim>\<open>load_tasks\<close>: no file gives the empty list; the \<^verbatim>\<open>except\<close> clause turns
  \<^verbatim>\<open>JSONDecodeError\<close> and \<^verbatim>\<open>KeyError\<close> into the empty list and lets every other
  exception through (\<^verbatim>\<open>UnicodeDecodeError\<close> and \<^verbatim>\<open>JSONDecodeError\<close> are both
  subclasses of \<^verbatim>\<open>ValueError\<close>, and neither is a subclass of the other).
\<close>

definition load_tasks :: "TaskStorage \<Rightarrow> disk \<Rightarrow> py_error + task list" where
  "load_tasks st dsk =
     (case dsk (filename st) of
        None \<Rightarrow> Inr []
      | Some content \<Rightarrow>
          (case load_body content of
             Inl JSONDecodeError \<Rightarrow> Inr []
           | Inl KeyError \<Rightarrow> Inr []
           | Inl e \<Rightarrow> Inl e
           | Inr ts \<Rightarrow> Inr ts))"

section \<open>\<^verbatim>\<open>LoginWindow\<close>\<close>

text \<open>The message boxes, with their title and text.\<close>

datatype messagebox = showerror string string | showinfo string string

text \<open>
  \<^verbatim>\<open>LoginWindow.login\<close> on the text of the entry. It shows an error box and returns, or
  calls \<^verbatim>\<open>on_login_success\<close> with the stripped text.
\<close>

definition login :: "string \<Rightarrow> (string \<Rightarrow> 'r) \<Rightarrow> messagebox + 'r" where
  "login entry on_login_success =
     (let u = strip entry in
      if u = [] then Inl (showerror ''Error'' ''Please enter a username'')
      else if \<not> isalnum u then
        Inl (showerror ''Error'' ''Username must contain only letters and numbers'')
      else Inr (on_login_success u))"

section \<open>\<^verbatim>\<open>ToDoApp\<close>\<close>

text \<open>
  The state of the application: the storage object, the task list, the selected index, the
  four inputs of the form, and the disk. The labels and the tree view only display the
  state and are left out, and the user name is the one in the storage object.
  \<^verbatim>\<open>selected_index\<close> is \<^verbatim>\<open>None\<close> or the row number that the selection handler
  read from a tree item, which is never negative.
\<close>

record ToDoApp =
  storage :: TaskStorage
  tasks :: "task list"
  selected_index :: "nat option"
  task_name_entry :: string
  priority_var :: string
  due_date_entry :: string
  category_var :: string
  files :: disk

text \<open>\<^verbatim>\<open>ToDoApp.__init__\<close>; \<^verbatim>\<open>main\<close> passes it to the login window as the callback.\<close>

definition ToDoApp_init :: "disk \<Rightarrow> string \<Rightarrow> py_error + ToDoApp" where
  "ToDoApp_init dsk u =
     (let st = TaskStorage_init u in
      case load_tasks st dsk of
        Inl e \<Rightarrow> Inl e
      | Inr ts \<Rightarrow>
          Inr \<lparr>storage = st, tasks = ts, selected_index = None, task_name_entry = [],
               priority_var = ''Low'', due_date_entry = [], category_var = ''Personal'',
               files = dsk\<rparr>)"

definition get_form_data :: "ToDoApp \<Rightarrow> string \<times> string \<times> string \<times> string" where
  "get_form_data s =
     (strip (task_name_entry s), priority_var s, strip (due_date_entry s), category_var s)"

definition clear_form :: "ToDoApp \<Rightarrow> ToDoApp" where
  "clear_form s =
     s\<lparr>task_name_entry := [], priority_var := ''Low'', due_date_entry := [],
       category_var := ''Personal'', selected_index := None\<rparr>"

definition flush :: "ToDoApp \<Rightarrow> ToDoApp" where
  "flush s = s\<lparr>files := save_tasks (storage s) (tasks s) (files s)\<rparr>"

text \<open>\<^verbatim>\<open>self.tasks[i]\<close>, which raises \<^verbatim>\<open>IndexError\<close> past the end.\<close>

definition task_at :: "ToDoApp \<Rightarrow> nat \<Rightarrow> py_error + task" where
  "task_at s i = (if i < length (tasks s) then Inr (tasks s ! i) else Inl IndexError)"

definition add_task :: "ToDoApp \<Rightarrow> messagebox \<times> ToDoApp" where
  "add_task s =
     (case get_form_data s of (nm, pr, dd, cat) \<Rightarrow>
        if nm = [] then (showerror ''Error'' ''Task name is required'', s)
        else if \<not> validate_date dd then
          (showerror ''Error'' ''Invalid date format. Use YYYY-MM-DD'', s)
        else
          let t = Task (PyStr nm) (PyStr pr) (PyStr dd) (PyStr cat) (PyStr ''Pending'');
              s1 = s\<lparr>tasks := tasks s @ [t]\<rparr>
          in (showinfo ''Success'' ''Task added successfully!'', clear_form (flush s1)))"

definition update_task :: "ToDoApp \<Rightarrow> py_error + (messagebox \<times> ToDoApp)" where
  "update_task s =
     (case selected_index s of
        None \<Rightarrow> Inr (showerror ''Error'' ''Please select a task to update'', s)
      | Some i \<Rightarrow>
          (case get_form_data s of (nm, pr, dd, cat) \<Rightarrow>
             if nm = [] then Inr (showerror ''Error'' ''Task name is required'', s)
             else if \<not> validate_date dd then
               Inr (showerror ''Error'' ''Invalid date format. Use YYYY-MM-DD'', s)
             else
               (case task_at s i of
                  Inl e \<Rightarrow> Inl e
                | Inr t \<Rightarrow>
                    let t' = t\<lparr>name := PyStr nm, priority := PyStr pr, due_date := PyStr dd,
                               category := PyStr cat\<rparr>;
                        s1 = s\<lparr>tasks := (tasks s)[i := t']\<rparr>
                    in Inr (showinfo ''Success'' ''Task updated successfully!'', flush s1))))"

text \<open>
  \<^verbatim>\<open>delete_task\<close>; \<open>yes\<close> is the answer to the confirmation box. \<^verbatim>\<open>del self.tasks[i]\<close>
  removes the element at \<open>i\<close>.
\<close>

definition delete_task :: "bool \<Rightarrow> ToDoApp \<Rightarrow> py_error + (messagebox option \<times> ToDoApp)" where
  "delete_task yes s =
     (case selected_index s of
        None \<Rightarrow> Inr (Some (showerror ''Error'' ''Please select a task to delete''), s)
      | Some i \<Rightarrow>
          (case task_at s i of
             Inl e \<Rightarrow> Inl e
           | Inr t \<Rightarrow>
               if yes then
                 let s1 = s\<lparr>tasks := take i (tasks s) @ drop (Suc i) (tasks s)\<rparr>
                 in Inr (None, (clear_form (flush s1))\<lparr>selected_index := None\<rparr>)
               else Inr (None, s)))"

definition mark_completed :: "ToDoApp \<Rightarrow> py_error + (messagebox \<times> ToDoApp)" where
  "mark_completed s =
     (case selected_index s of
        None \<Rightarrow> Inr (showerror ''Error'' ''Please select a task to mark as completed'', s)
      | Some i \<Rightarrow>
          (case task_at s i of
             Inl e \<Rightarrow> Inl e
           | Inr t \<Rightarrow>
               if status t = PyStr ''Completed'' then
                 Inr (showinfo ''Info'' ''This task is already completed'', s)
               else
                 let s1 = s\<lparr>tasks := (tasks s)[i := t\<lparr>status := PyStr ''Completed''\<rparr>]\<rparr>
                 in Inr (showinfo ''Success'' ''Task marked as completed!'', flush s1)))"

section \<open>Notions used in the statements\<close>

text \<open>The task that \<^verbatim>\<open>add_task\<close> builds from the form, and a task after
  \<^verbatim>\<open>update_task\<close> has assigned the four fields of the form to it.\<close>

definition new_task :: "ToDoApp \<Rightarrow> task" where
  "new_task s =
     Task (PyStr (strip (task_name_entry s))) (PyStr (priority_var s))
       (PyStr (strip (due_date_entry s))) (PyStr (category_var s)) (PyStr ''Pending'')"

definition edited :: "ToDoApp \<Rightarrow> task \<Rightarrow> task" where
  "edited s t =
     t\<lparr>name := PyStr (strip (task_name_entry s)), priority := PyStr (priority_var s),
       due_date := PyStr (strip (due_date_entry s)), category := PyStr (category_var s)\<rparr>"

text \<open>
  The format of a due date as the specification words it: four digits, a hyphen, two
  digits, a hyphen, two digits.
\<close>

definition spec_fixed_format :: "string \<Rightarrow> bool" where
  "spec_fixed_format s =
     (case s of
        [y1, y2, y3, y4, h1, m1, m2, h2, d1, d2] \<Rightarrow>
          list_all isdecimal [y1, y2, y3, y4, m1, m2, d1, d2] \<and> h1 = CHR ''-'' \<and> h2 = CHR ''-''
      | _ \<Rightarrow> False)"

text \<open>A record of the file is a JSON object; it lacks a field if one of the five keys is
  not in it.\<close>

definition is_record :: "pyval \<Rightarrow> bool" where
  "is_record v = (case v of PyDict _ \<Rightarrow> True | _ \<Rightarrow> False)"

definition required_fields :: "string list" where
  "required_fields = [''name'', ''priority'', ''due_date'', ''category'', ''status'']"

definition lacks_field :: "pyval \<Rightarrow> bool" where
  "lacks_field v = list_ex (\<lambda>k. getitem v k = Inl KeyError) required_fields"

text \<open>
  The invariant of a task in the specification's data model: no field is null, the name is
  not the empty text, and the due date is a text that is empty or parses as a date.
\<close>

definition task_invariant :: "task \<Rightarrow> bool" where
  "task_invariant t =
     (name t \<noteq> PyNone \<and> priority t \<noteq> PyNone \<and> due_date t \<noteq> PyNone \<and> category t \<noteq> PyNone
      \<and> status t \<noteq> PyNone \<and> name t \<noteq> PyStr []
      \<and> (case due_date t of PyStr d \<Rightarrow> validate_date d | _ \<Rightarrow> False))"

text \<open>
  A letter or a digit, as the specification words the test of a user name, and the
  characters of ASCII.
\<close>

definition spec_letter_or_digit :: "char \<Rightarrow> bool" where
  "spec_letter_or_digit c = (isalpha c \<or> isdigit c)"

definition ascii_char :: "char \<Rightarrow> bool" where
  "ascii_char c = (code_point c < 128)"

text \<open>Concrete data for the instances below.\<close>

definition example_task_0 :: task where
  "example_task_0 =
     Task (PyStr ''Buy milk'') (PyStr ''Low'') (PyStr []) (PyStr ''Shopping'') (PyStr ''Completed'')"

definition example_task_1 :: task where
  "example_task_1 =
     Task (PyStr ''Write report'') (PyStr ''High'') (PyStr ''2024-02-29'') (PyStr ''Work'')
       (PyStr ''Pending'')"

definition example_app :: ToDoApp where
  "example_app =
     \<lparr>storage = TaskStorage_init ''alice1'', tasks = [example_task_0, example_task_1],
      selected_index = Some 1, task_name_entry = '' Call Bob '', priority_var = ''High'',
      due_date_entry = ''2024-03-01'', category_var = ''Work'', files = Map.empty\<rparr>"

text \<open>A file with a complete record, then a record without \<^verbatim>\<open>status\<close>, then a number.\<close>

definition corrupt_items :: "pyval list" where
  "corrupt_items =
     [to_dict example_task_0,
      PyDict [(''name'', PyStr ''No status''), (''priority'', PyStr ''Low''),
              (''due_date'', PyStr []), (''category'', PyStr ''Other'')],
      PyInt 1]"

text \<open>A file with a number, then a record without \<^verbatim>\<open>status\<close>.\<close>

definition number_first_items :: "pyval list" where
  "number_first_items =
     [PyInt 1,
      PyDict [(''name'', PyStr ''No status''), (''priority'', PyStr ''Low''),
              (''due_date'', PyStr []), (''category'', PyStr ''Other'')]]"

text \<open>The user name made of the one character VULGAR FRACTION ONE QUARTER.\<close>

definition quarter_name :: string where
  "quarter_name = [CHR 0xBC]"

text \<open>A file whose only record has all five keys, a null name and the due date 30 February.\<close>

definition hand_edited_disk :: disk where
  "hand_edited_disk =
     Map.empty(''alice1_tasks.json'' \<mapsto> JSON_text (PyList [PyDict
        [(''name'', PyNone), (''priority'', PyStr ''High''), (''due_date'', PyStr ''2024-02-30''),
         (''category'', PyStr ''Work''), (''status'', PyStr ''Pending'')]]))"

section \<open>Saving and loading\<close>

lemma from_dict_to_dict: "from_dict (to_dict t) = Inr t"
  by (simp add: from_dict_def to_dict_def Task_def)

lemma from_dict_each_to_dict: "from_dict_each (map to_dict ts) = Inr ts"
  by (induction ts) (simp_all add: from_dict_to_dict)

lemma load_body_json_dump: "load_body (json_dump (PyList (map to_dict ts))) = Inr ts"
  by (simp add: load_body_def json_dump_def from_dict_each_to_dict)

lemma load_tasks_save_tasks: "load_tasks st (save_tasks st ts dsk) = Inr ts"
  by (simp add: load_tasks_def save_tasks_def load_body_json_dump)

text \<open>
  Claim C1. For every list of tasks, of any length, \<^verbatim>\<open>save_tasks\<close> followed by
  \<^verbatim>\<open>load_tasks\<close> on the same storage object returns the list itself: the same tasks,
  equal in all five fields, in the same order. Whatever the disk held before does not
  matter.
\<close>

theorem save_then_load_roundtrip:
  "load_tasks st (save_tasks st ts dsk) = Inr ts"
proof -
  have written: "save_tasks st ts dsk (filename st) = Some (json_dump (PyList (map to_dict ts)))"
    by (simp add: save_tasks_def)
  have "load_body (json_dump (PyList (map to_dict ts))) = Inr ts"
    by (rule load_body_json_dump)
  with written show ?thesis
    by (simp add: load_tasks_def)
qed

theorem save_then_load_roundtrip_witness:
  "load_tasks (TaskStorage_init ''alice1'')
      (save_tasks (TaskStorage_init ''alice1'') [example_task_0, example_task_1] Map.empty)
     = Inr [example_task_0, example_task_1]
   \<and> load_tasks (TaskStorage_init ''alice1'')
      (save_tasks (TaskStorage_init ''alice1'') [] Map.empty) = Inr []"
  using
    save_then_load_roundtrip
      [of "TaskStorage_init ''alice1''" "[example_task_0, example_task_1]" Map.empty]
    save_then_load_roundtrip [of "TaskStorage_init ''alice1''" "[]" Map.empty]
  by simp

section \<open>Evaluations used by the instances\<close>

lemma strip_examples:
  "strip '' Call Bob '' = ''Call Bob''" "strip ''2024-03-01'' = ''2024-03-01''"
  "strip ''   '' = []" "strip ''2024-02-30'' = ''2024-02-30''"
  "strip ''alice1'' = ''alice1''" "strip [] = []" "strip ''al ice'' = ''al ice''"
  "strip ''alice!'' = ''alice!''" "strip '' alice1 '' = ''alice1''"
  by code_simp+

lemma validate_date_vectors:
  "validate_date []" "validate_date ''2024-02-29''" "\<not> validate_date ''2024-02-30''"
  "\<not> validate_date ''24-02-01''" "validate_date ''2024-03-01''"
  by code_simp+

lemma isalnum_examples:
  "isalnum ''alice1''" "\<not> isalnum ''al ice''" "\<not> isalnum ''alice!''"
  by code_simp+

lemma example_form:
  "strip (task_name_entry example_app) = ''Call Bob''"
  "strip (due_date_entry example_app) = ''2024-03-01''"
  "priority_var example_app = ''High''" "category_var example_app = ''Work''"
  "tasks example_app = [example_task_0, example_task_1]"
  "selected_index example_app = Some 1"
  by (simp_all add: example_app_def strip_examples)

section \<open>The handlers of the four buttons\<close>

lemma tasks_clear_form [simp]: "tasks (clear_form s) = tasks s"
  by (simp add: clear_form_def)

lemma files_clear_form [simp]: "files (clear_form s) = files s"
  by (simp add: clear_form_def)

lemma storage_clear_form [simp]: "storage (clear_form s) = storage s"
  by (simp add: clear_form_def)

lemma selected_clear_form [simp]: "selected_index (clear_form s) = None"
  by (simp add: clear_form_def)

lemma tasks_flush [simp]: "tasks (flush s) = tasks s"
  by (simp add: flush_def)

lemma storage_flush [simp]: "storage (flush s) = storage s"
  by (simp add: flush_def)

lemma files_flush: "files (flush s) = save_tasks (storage s) (tasks s) (files s)"
  by (simp add: flush_def)

lemma load_tasks_flush: "load_tasks (storage s) (files (flush s)) = Inr (tasks s)"
  by (simp add: files_flush load_tasks_save_tasks)

lemma task_at_valid: "i < length (tasks s) \<Longrightarrow> task_at s i = Inr (tasks s ! i)"
  by (simp add: task_at_def)

lemma add_task_valid:
  assumes "strip (task_name_entry s) \<noteq> []" and "validate_date (strip (due_date_entry s))"
  shows "add_task s = (showinfo ''Success'' ''Task added successfully!'',
            clear_form (flush (s\<lparr>tasks := tasks s @ [new_task s]\<rparr>)))"
  using assms by (simp add: add_task_def get_form_data_def new_task_def Let_def)

text \<open>
  Claim C2. When the stripped name of the form is not empty and the stripped due date
  passes \<^verbatim>\<open>validate_date\<close> (it is empty or parses), whatever the priority and the
  category are, \<^verbatim>\<open>add_task\<close> reports success and the task list becomes the old list
  followed by one task: the stripped name, the priority, the stripped due date and the
  category of the form, with status Pending. The list is one longer and its old part is
  unchanged. Loading the file again, as a new session does, gives exactly this list.
\<close>

theorem add_task_appends_pending:
  assumes "strip (task_name_entry s) \<noteq> []" and "validate_date (strip (due_date_entry s))"
  shows "fst (add_task s) = showinfo ''Success'' ''Task added successfully!''
     \<and> tasks (snd (add_task s)) =
           tasks s @ [Task (PyStr (strip (task_name_entry s))) (PyStr (priority_var s))
                           (PyStr (strip (due_date_entry s))) (PyStr (category_var s))
                           (PyStr ''Pending'')]
     \<and> length (tasks (snd (add_task s))) = Suc (length (tasks s))
     \<and> take (length (tasks s)) (tasks (snd (add_task s))) = tasks s
     \<and> storage (snd (add_task s)) = storage s
     \<and> load_tasks (storage s) (files (snd (add_task s))) = Inr (tasks (snd (add_task s)))"
proof -
  let ?s1 = "s\<lparr>tasks := tasks s @ [new_task s]\<rparr>"
  have run: "add_task s = (showinfo ''Success'' ''Task added successfully!'', clear_form (flush ?s1))"
    using assms by (rule add_task_valid)
  have "load_tasks (storage ?s1) (files (flush ?s1)) = Inr (tasks ?s1)"
    by (rule load_tasks_flush)
  then show ?thesis
    by (simp add: run new_task_def)
qed

theorem add_task_appends_pending_witness:
  "strip (task_name_entry example_app) \<noteq> [] \<and> validate_date (strip (due_date_entry example_app))
   \<and> tasks (snd (add_task example_app)) =
        [example_task_0, example_task_1,
         Task (PyStr ''Call Bob'') (PyStr ''High'') (PyStr ''2024-03-01'') (PyStr ''Work'')
           (PyStr ''Pending'')]
   \<and> load_tasks (storage example_app) (files (snd (add_task example_app)))
        = Inr [example_task_0, example_task_1,
         Task (PyStr ''Call Bob'') (PyStr ''High'') (PyStr ''2024-03-01'') (PyStr ''Work'')
           (PyStr ''Pending'')]"
proof -
  have h1: "strip (task_name_entry example_app) \<noteq> []"
    by (simp add: example_form)
  have h2: "validate_date (strip (due_date_entry example_app))"
    by (simp add: example_form validate_date_vectors)
  show ?thesis
    using h1 h2 add_task_appends_pending [OF h1 h2] by (simp add: example_form)
qed

lemma update_task_valid:
  assumes "selected_index s = Some i" and "i < length (tasks s)"
    and "strip (task_name_entry s) \<noteq> []" and "validate_date (strip (due_date_entry s))"
  shows "update_task s = Inr (showinfo ''Success'' ''Task updated successfully!'',
            flush (s\<lparr>tasks := (tasks s)[i := edited s (tasks s ! i)]\<rparr>))"
  using assms by (simp add: update_task_def get_form_data_def task_at_valid edited_def Let_def)

text \<open>
  Claim C4. When the task at index \<open>i\<close> is selected, \<open>i\<close> is an index of the list, the
  stripped name of the form is not empty and the stripped due date passes
  \<^verbatim>\<open>validate_date\<close>, \<^verbatim>\<open>update_task\<close> reports success and leaves a list of the same
  length in which the task at \<open>i\<close> has the name, priority, due date and category of the
  form and the status it had, and every other position holds the task it held. The
  selection stays on \<open>i\<close>.
\<close>

theorem update_task_frame:
  assumes "selected_index s = Some i" and "i < length (tasks s)"
    and "strip (task_name_entry s) \<noteq> []" and "validate_date (strip (due_date_entry s))"
  shows "\<exists>s'. update_task s = Inr (showinfo ''Success'' ''Task updated successfully!'', s')
           \<and> length (tasks s') = length (tasks s)
           \<and> name (tasks s' ! i) = PyStr (strip (task_name_entry s))
           \<and> priority (tasks s' ! i) = PyStr (priority_var s)
           \<and> due_date (tasks s' ! i) = PyStr (strip (due_date_entry s))
           \<and> category (tasks s' ! i) = PyStr (category_var s)
           \<and> status (tasks s' ! i) = status (tasks s ! i)
           \<and> (\<forall>j < length (tasks s). j \<noteq> i \<longrightarrow> tasks s' ! j = tasks s ! j)
           \<and> selected_index s' = Some i"
proof -
  let ?s' = "flush (s\<lparr>tasks := (tasks s)[i := edited s (tasks s ! i)]\<rparr>)"
  have "update_task s = Inr (showinfo ''Success'' ''Task updated successfully!'', ?s')"
    using assms by (rule update_task_valid)
  moreover have "tasks ?s' = (tasks s)[i := edited s (tasks s ! i)]"
    by simp
  moreover have "selected_index ?s' = Some i"
    using assms(1) by (simp add: flush_def)
  ultimately show ?thesis
    using assms(2) by (intro exI [of _ ?s']) (simp add: edited_def)
qed

theorem update_task_frame_witness:
  "selected_index example_app = Some 1 \<and> 1 < length (tasks example_app)
   \<and> strip (task_name_entry example_app) \<noteq> [] \<and> validate_date (strip (due_date_entry example_app))
   \<and> (\<exists>s'. update_task example_app = Inr (showinfo ''Success'' ''Task updated successfully!'', s')
         \<and> length (tasks s') = 2
         \<and> tasks s' ! 0 = example_task_0
         \<and> name (tasks s' ! 1) = PyStr ''Call Bob''
         \<and> priority (tasks s' ! 1) = PyStr ''High''
         \<and> due_date (tasks s' ! 1) = PyStr ''2024-03-01''
         \<and> category (tasks s' ! 1) = PyStr ''Work''
         \<and> status (tasks s' ! 1) = PyStr ''Pending'')"
proof -
  have h1: "selected_index example_app = Some 1"
    by (simp add: example_form)
  have h2: "1 < length (tasks example_app)"
    by (simp add: example_form)
  have h3: "strip (task_name_entry example_app) \<noteq> []"
    by (simp add: example_form)
  have h4: "validate_date (strip (due_date_entry example_app))"
    by (simp add: example_form validate_date_vectors)
  obtain s' where s':
    "update_task example_app = Inr (showinfo ''Success'' ''Task updated successfully!'', s')"
    "length (tasks s') = length (tasks example_app)"
    "name (tasks s' ! 1) = PyStr (strip (task_name_entry example_app))"
    "priority (tasks s' ! 1) = PyStr (priority_var example_app)"
    "due_date (tasks s' ! 1) = PyStr (strip (due_date_entry example_app))"
    "category (tasks s' ! 1) = PyStr (category_var example_app)"
    "status (tasks s' ! 1) = status (tasks example_app ! 1)"
    "\<forall>j < length (tasks example_app). j \<noteq> 1 \<longrightarrow> tasks s' ! j = tasks example_app ! j"
    using update_task_frame [OF h1 h2 h3 h4] by blast
  from s'(8) have "tasks s' ! 0 = example_task_0"
    by (simp add: example_form)
  with s'(1-7) h1 h2 h3 h4 show ?thesis
    by (simp add: example_form example_task_1_def Task_def)
qed

lemma delete_task_valid:
  assumes "selected_index s = Some i" and "i < length (tasks s)"
  shows "delete_task True s = Inr (None,
           (clear_form (flush (s\<lparr>tasks := take i (tasks s) @ drop (Suc i) (tasks s)\<rparr>)))
              \<lparr>selected_index := None\<rparr>)"
  using assms by (simp add: delete_task_def task_at_valid Let_def)

text \<open>
  Claim C5. When the task at index \<open>i\<close> is selected, \<open>i\<close> is an index of the list and the
  user confirms, \<^verbatim>\<open>delete_task\<close> leaves a list that is one shorter: the tasks before
  \<open>i\<close> stay where they were, the task that was at \<open>i\<close> is gone, each later task has moved
  down by one position, and nothing is selected any more.
\<close>

theorem delete_task_removes_one:
  assumes "selected_index s = Some i" and "i < length (tasks s)"
  shows "\<exists>s'. delete_task True s = Inr (None, s')
           \<and> Suc (length (tasks s')) = length (tasks s)
           \<and> tasks s' = take i (tasks s) @ drop (Suc i) (tasks s)
           \<and> (\<forall>j < i. tasks s' ! j = tasks s ! j)
           \<and> (\<forall>j. i \<le> j \<and> j < length (tasks s') \<longrightarrow> tasks s' ! j = tasks s ! Suc j)
           \<and> selected_index s' = None"
proof -
  let ?ts = "take i (tasks s) @ drop (Suc i) (tasks s)"
  let ?s' = "(clear_form (flush (s\<lparr>tasks := ?ts\<rparr>)))\<lparr>selected_index := None\<rparr>"
  have run: "delete_task True s = Inr (None, ?s')"
    using assms by (rule delete_task_valid)
  have ts: "tasks ?s' = ?ts"
    by simp
  have len: "Suc (length ?ts) = length (tasks s)"
    using assms(2) by simp
  have before: "\<forall>j < i. ?ts ! j = tasks s ! j"
    using assms(2) by (simp add: nth_append)
  have after: "\<forall>j. i \<le> j \<and> j < length ?ts \<longrightarrow> ?ts ! j = tasks s ! Suc j"
  proof (intro allI impI)
    fix j assume j: "i \<le> j \<and> j < length ?ts"
    have "length (take i (tasks s)) = i"
      using assms(2) by simp
    then have "?ts ! j = drop (Suc i) (tasks s) ! (j - i)"
      using j by (simp add: nth_append)
    also have "\<dots> = tasks s ! (Suc i + (j - i))"
      using j len by (intro nth_drop) simp
    finally show "?ts ! j = tasks s ! Suc j"
      using j by simp
  qed
  show ?thesis
    using run ts len before after by (intro exI [of _ ?s']) simp
qed

theorem delete_task_removes_one_witness:
  "selected_index example_app = Some 1 \<and> 1 < length (tasks example_app)
   \<and> (\<exists>s'. delete_task True example_app = Inr (None, s')
         \<and> tasks s' = [example_task_0] \<and> selected_index s' = None)"
proof -
  have h1: "selected_index example_app = Some 1"
    by (simp add: example_form)
  have h2: "1 < length (tasks example_app)"
    by (simp add: example_form)
  show ?thesis
    using h1 h2 delete_task_removes_one [OF h1 h2] by (auto simp add: example_form)
qed

section \<open>Calls that are rejected\<close>

text \<open>
  Claim C6. A call that ends in an error box or in the "already completed" notice
  returns the state it was given: the task list, and with it the disk, since nothing is
  saved, are what they were. This holds for \<^verbatim>\<open>add_task\<close> and \<^verbatim>\<open>update_task\<close> when the
  stripped name is empty or the stripped due date fails \<^verbatim>\<open>validate_date\<close>, for
  \<^verbatim>\<open>update_task\<close>, \<^verbatim>\<open>delete_task\<close> and \<^verbatim>\<open>mark_completed\<close> when nothing is selected, and
  for \<^verbatim>\<open>mark_completed\<close> when the selected task already has status Completed.
\<close>

theorem rejected_calls_change_nothing:
  "(strip (task_name_entry s) = [] \<or> \<not> validate_date (strip (due_date_entry s))
      \<longrightarrow> (\<exists>m. add_task s = (showerror ''Error'' m, s)))
   \<and> (selected_index s = None \<or> strip (task_name_entry s) = []
        \<or> \<not> validate_date (strip (due_date_entry s))
      \<longrightarrow> (\<exists>m. update_task s = Inr (showerror ''Error'' m, s)))
   \<and> (selected_index s = None
      \<longrightarrow> delete_task yes s = Inr (Some (showerror ''Error'' ''Please select a task to delete''), s))
   \<and> (selected_index s = None
      \<longrightarrow> mark_completed s
            = Inr (showerror ''Error'' ''Please select a task to mark as completed'', s))
   \<and> (selected_index s = Some i \<and> i < length (tasks s)
        \<and> status (tasks s ! i) = PyStr ''Completed''
      \<longrightarrow> mark_completed s = Inr (showinfo ''Info'' ''This task is already completed'', s))"
proof (intro conjI impI)
  assume "strip (task_name_entry s) = [] \<or> \<not> validate_date (strip (due_date_entry s))"
  then show "\<exists>m. add_task s = (showerror ''Error'' m, s)"
    by (auto simp add: add_task_def get_form_data_def)
next
  assume "selected_index s = None \<or> strip (task_name_entry s) = []
    \<or> \<not> validate_date (strip (due_date_entry s))"
  then show "\<exists>m. update_task s = Inr (showerror ''Error'' m, s)"
    by (auto simp add: update_task_def get_form_data_def split: option.splits)
next
  assume "selected_index s = None"
  then show "delete_task yes s
      = Inr (Some (showerror ''Error'' ''Please select a task to delete''), s)"
    by (simp add: delete_task_def)
next
  assume "selected_index s = None"
  then show "mark_completed s
      = Inr (showerror ''Error'' ''Please select a task to mark as completed'', s)"
    by (simp add: mark_completed_def)
next
  assume "selected_index s = Some i \<and> i < length (tasks s)
    \<and> status (tasks s ! i) = PyStr ''Completed''"
  then show "mark_completed s = Inr (showinfo ''Info'' ''This task is already completed'', s)"
    by (simp add: mark_completed_def task_at_def)
qed

theorem rejected_calls_change_nothing_witness:
  "strip (task_name_entry (example_app\<lparr>task_name_entry := ''   ''\<rparr>)) = []
   \<and> add_task (example_app\<lparr>task_name_entry := ''   ''\<rparr>)
       = (showerror ''Error'' ''Task name is required'', example_app\<lparr>task_name_entry := ''   ''\<rparr>)
   \<and> \<not> validate_date (strip (due_date_entry (example_app\<lparr>due_date_entry := ''2024-02-30''\<rparr>)))
   \<and> add_task (example_app\<lparr>due_date_entry := ''2024-02-30''\<rparr>)
       = (showerror ''Error'' ''Invalid date format. Use YYYY-MM-DD'',
          example_app\<lparr>due_date_entry := ''2024-02-30''\<rparr>)
   \<and> update_task (example_app\<lparr>due_date_entry := ''2024-02-30''\<rparr>)
       = Inr (showerror ''Error'' ''Invalid date format. Use YYYY-MM-DD'',
          example_app\<lparr>due_date_entry := ''2024-02-30''\<rparr>)
   \<and> selected_index (example_app\<lparr>selected_index := None\<rparr>) = None
   \<and> update_task (example_app\<lparr>selected_index := None\<rparr>)
       = Inr (showerror ''Error'' ''Please select a task to update'',
          example_app\<lparr>selected_index := None\<rparr>)
   \<and> delete_task True (example_app\<lparr>selected_index := None\<rparr>)
       = Inr (Some (showerror ''Error'' ''Please select a task to delete''),
          example_app\<lparr>selected_index := None\<rparr>)
   \<and> mark_completed (example_app\<lparr>selected_index := None\<rparr>)
       = Inr (showerror ''Error'' ''Please select a task to mark as completed'',
          example_app\<lparr>selected_index := None\<rparr>)
   \<and> status (tasks (example_app\<lparr>selected_index := Some 0\<rparr>) ! 0) = PyStr ''Completed''
   \<and> mark_completed (example_app\<lparr>selected_index := Some 0\<rparr>)
       = Inr (showinfo ''Info'' ''This task is already completed'',
          example_app\<lparr>selected_index := Some 0\<rparr>)"
proof -
  let ?a = "example_app\<lparr>task_name_entry := ''   ''\<rparr>"
  let ?b = "example_app\<lparr>due_date_entry := ''2024-02-30''\<rparr>"
  let ?c = "example_app\<lparr>selected_index := None\<rparr>"
  let ?d = "example_app\<lparr>selected_index := Some 0\<rparr>"
  have a: "strip (task_name_entry ?a) = []"
    by (simp add: strip_examples)
  have b: "\<not> validate_date (strip (due_date_entry ?b))" "strip (task_name_entry ?b) \<noteq> []"
    "selected_index ?b = Some 1"
    by (simp_all add: strip_examples validate_date_vectors example_form)
  have c: "selected_index ?c = None"
    by simp
  have d: "selected_index ?d = Some 0" "0 < length (tasks ?d)"
    "status (tasks ?d ! 0) = PyStr ''Completed''"
    by (simp_all add: example_form example_task_0_def Task_def)
  have "add_task ?a = (showerror ''Error'' ''Task name is required'', ?a)"
    using rejected_calls_change_nothing [of ?a] a
    by (auto simp add: add_task_def get_form_data_def)
  moreover have "add_task ?b = (showerror ''Error'' ''Invalid date format. Use YYYY-MM-DD'', ?b)"
    using rejected_calls_change_nothing [of ?b] b
    by (auto simp add: add_task_def get_form_data_def)
  moreover have "update_task ?b
      = Inr (showerror ''Error'' ''Invalid date format. Use YYYY-MM-DD'', ?b)"
    using rejected_calls_change_nothing [of ?b] b
    by (auto simp add: update_task_def get_form_data_def)
  moreover have "update_task ?c = Inr (showerror ''Error'' ''Please select a task to update'', ?c)"
    using rejected_calls_change_nothing [of ?c] c
    by (auto simp add: update_task_def)
  moreover have "delete_task True ?c
      = Inr (Some (showerror ''Error'' ''Please select a task to delete''), ?c)"
    using rejected_calls_change_nothing [of ?c True] c by blast
  moreover have "mark_completed ?c
      = Inr (showerror ''Error'' ''Please select a task to mark as completed'', ?c)"
    using rejected_calls_change_nothing [of ?c] c by blast
  moreover have "mark_completed ?d = Inr (showinfo ''Info'' ''This task is already completed'', ?d)"
    using rejected_calls_change_nothing [of ?d _ 0] d by blast
  ultimately show ?thesis
    using a b(1) c d(3) by blast
qed

section \<open>Loading a missing or damaged file\<close>

lemma from_dict_record: "is_record v \<Longrightarrow> from_dict v = Inl KeyError \<or> (\<exists>t. from_dict v = Inr t)"
  by (cases v) (simp_all add: is_record_def from_dict_def split: option.splits sum.splits)

lemma from_dict_lacks_field: "lacks_field v \<Longrightarrow> from_dict v = Inl KeyError"
  by (cases v)
    (auto simp add: lacks_field_def required_fields_def from_dict_def
       split: option.splits sum.splits)

lemma from_dict_each_lacks_field:
  "list_all is_record pre \<Longrightarrow> lacks_field bad \<Longrightarrow>
     from_dict_each (pre @ bad # post) = Inl KeyError"
proof (induction pre)
  case Nil
  then show ?case by (simp add: from_dict_lacks_field)
next
  case (Cons x pre)
  then have "from_dict x = Inl KeyError \<or> (\<exists>t. from_dict x = Inr t)"
    by (simp add: from_dict_record)
  with Cons show ?case by auto
qed

text \<open>
  Claim C7 as stated fails in two of its cases. A file can hold a record that lacks a
  field and still make \<^verbatim>\<open>load_tasks\<close> raise: in the array of the number 1 and a record
  without \<^verbatim>\<open>status\<close>, the number is reached first and subscripting it raises
  \<^verbatim>\<open>TypeError\<close>. And a file that is not well-formed JSON because its bytes are not text
  in the locale's encoding raises \<^verbatim>\<open>UnicodeDecodeError\<close> when it is read. The
  \<^verbatim>\<open>except\<close> clause names \<^verbatim>\<open>JSONDecodeError\<close> and \<^verbatim>\<open>KeyError\<close> only.
\<close>

theorem load_tasks_raises_on_damaged_file_counterexample:
  "list_ex lacks_field number_first_items
   \<and> load_tasks (TaskStorage_init ''alice1'')
        (Map.empty(''alice1_tasks.json'' \<mapsto> JSON_text (PyList number_first_items)))
       = Inl TypeError
   \<and> load_tasks (TaskStorage_init ''alice1'') (Map.empty(''alice1_tasks.json'' \<mapsto> Undecodable))
       = Inl UnicodeDecodeError"
  by (simp add: number_first_items_def lacks_field_def required_fields_def load_tasks_def
        load_body_def from_dict_def TaskStorage_init_def)

text \<open>
  Claim C7, amended. \<^verbatim>\<open>load_tasks\<close> returns the empty list, and raises nothing, when the
  file does not exist, when its text is read but is not JSON (the parser raises
  \<^verbatim>\<open>JSONDecodeError\<close>), and when it is a JSON array that holds a record (an object)
  lacking one of the five fields, the elements before that record being objects too. In
  the last case nothing of the file is kept: the complete records before the defective one
  are dropped with it, and what follows it is never read.
\<close>

theorem load_tasks_empty_when_absent_or_corrupt:
  "(dsk (filename st) = None \<longrightarrow> load_tasks st dsk = Inr [])
   \<and> (dsk (filename st) = Some Not_JSON \<longrightarrow> load_tasks st dsk = Inr [])
   \<and> (dsk (filename st) = Some (JSON_text (PyList (pre @ bad # post)))
        \<and> list_all is_record pre \<and> lacks_field bad
      \<longrightarrow> load_tasks st dsk = Inr [])"
proof (intro conjI impI)
  assume "dsk (filename st) = None"
  then show "load_tasks st dsk = Inr []"
    by (simp add: load_tasks_def)
next
  assume "dsk (filename st) = Some Not_JSON"
  then show "load_tasks st dsk = Inr []"
    by (simp add: load_tasks_def load_body_def)
next
  assume a: "dsk (filename st) = Some (JSON_text (PyList (pre @ bad # post)))
    \<and> list_all is_record pre \<and> lacks_field bad"
  then have "load_body (JSON_text (PyList (pre @ bad # post))) = Inl KeyError"
    by (simp add: load_body_def from_dict_each_lacks_field)
  with a show "load_tasks st dsk = Inr []"
    by (simp add: load_tasks_def)
qed

theorem load_tasks_empty_when_absent_or_corrupt_witness:
  "load_tasks (TaskStorage_init ''alice1'') Map.empty = Inr []
   \<and> load_tasks (TaskStorage_init ''alice1'') (Map.empty(''alice1_tasks.json'' \<mapsto> Not_JSON)) = Inr []
   \<and> list_all is_record [to_dict example_task_0]
   \<and> lacks_field (PyDict [(''name'', PyStr ''No status''), (''priority'', PyStr ''Low''),
              (''due_date'', PyStr []), (''category'', PyStr ''Other'')])
   \<and> load_tasks (TaskStorage_init ''alice1'')
        (Map.empty(''alice1_tasks.json'' \<mapsto> JSON_text (PyList corrupt_items))) = Inr []"
proof -
  let ?st = "TaskStorage_init ''alice1''"
  let ?bad = "PyDict [(''name'', PyStr ''No status''), (''priority'', PyStr ''Low''),
              (''due_date'', PyStr []), (''category'', PyStr ''Other'')]"
  have fn: "filename ?st = ''alice1_tasks.json''"
    by (simp add: TaskStorage_init_def)
  have pre: "list_all is_record [to_dict example_task_0]"
    by (simp add: is_record_def to_dict_def)
  have bad: "lacks_field ?bad"
    by (simp add: lacks_field_def required_fields_def)
  have items: "corrupt_items = [to_dict example_task_0] @ ?bad # [PyInt 1]"
    by (simp add: corrupt_items_def)
  have "load_tasks ?st Map.empty = Inr []"
    using load_tasks_empty_when_absent_or_corrupt [of Map.empty ?st] by simp
  moreover have "load_tasks ?st (Map.empty(''alice1_tasks.json'' \<mapsto> Not_JSON)) = Inr []"
    using load_tasks_empty_when_absent_or_corrupt
      [of "Map.empty(''alice1_tasks.json'' \<mapsto> Not_JSON)" ?st]
    by (simp add: fn)
  moreover have "load_tasks ?st
      (Map.empty(''alice1_tasks.json'' \<mapsto> JSON_text (PyList corrupt_items))) = Inr []"
    using load_tasks_empty_when_absent_or_corrupt
      [of "Map.empty(''alice1_tasks.json'' \<mapsto> JSON_text (PyList corrupt_items))" ?st
          "[to_dict example_task_0]" ?bad "[PyInt 1]"] pre bad
    by (simp add: fn items)
  ultimately show ?thesis
    using pre bad by blast
qed

text \<open>
  Claim C10. \<^verbatim>\<open>load_tasks\<close> is not total on files that are well-formed JSON. For the
  array \<^verbatim>\<open>[1]\<close>, the array \<^verbatim>\<open>["x"]\<close> and the number \<^verbatim>\<open>5\<close> the call raises
  \<^verbatim>\<open>TypeError\<close>, which the \<^verbatim>\<open>except\<close> clause does not catch: \<^verbatim>\<open>json.load\<close> succeeds on
  each of them, and subscripting a number or a str with a key, or iterating a number,
  fails.
\<close>

theorem load_tasks_raises_TypeError:
  "json_load (JSON_text (PyList [PyInt 1])) = Inr (PyList [PyInt 1])
   \<and> load_tasks st (dsk(filename st \<mapsto> JSON_text (PyList [PyInt 1]))) = Inl TypeError
   \<and> load_tasks st (dsk(filename st \<mapsto> JSON_text (PyList [PyStr ''x'']))) = Inl TypeError
   \<and> load_tasks st (dsk(filename st \<mapsto> JSON_text (PyInt 5))) = Inl TypeError"
  by (simp add: load_tasks_def load_body_def from_dict_def)

theorem load_tasks_raises_TypeError_witness:
  "load_tasks (TaskStorage_init ''alice1'')
     (Map.empty(''alice1_tasks.json'' \<mapsto> JSON_text (PyList [PyInt 1]))) = Inl TypeError"
  using load_tasks_raises_TypeError [of "TaskStorage_init ''alice1''" Map.empty]
  by (simp add: TaskStorage_init_def)

section \<open>The login window\<close>

lemma isalnum_char_iff: "isalnum_char c \<longleftrightarrow> spec_letter_or_digit c \<or> isnumeric c"
  by (auto simp add: isalnum_char_def spec_letter_or_digit_def isdigit_def isnumeric_def)

lemma ascii_isalnum_char_iff: "ascii_char c \<Longrightarrow> isalnum_char c \<longleftrightarrow> spec_letter_or_digit c"
  by (auto simp add: isalnum_char_iff spec_letter_or_digit_def ascii_char_def isnumeric_def
        in_range_def)

lemma set_strip: "set (strip s) \<subseteq> set s"
proof -
  have "set (strip s) \<subseteq> set (rev (dropWhile isspace s))"
    by (auto simp add: strip_def dest: set_dropWhileD)
  also have "\<dots> \<subseteq> set s"
    by (auto dest: set_dropWhileD)
  finally show ?thesis .
qed

lemma login_result:
  "login entry cb =
     (if strip entry \<noteq> [] \<and> list_all isalnum_char (strip entry) then Inr (cb (strip entry))
      else if strip entry = [] then Inl (showerror ''Error'' ''Please enter a username'')
      else Inl (showerror ''Error'' ''Username must contain only letters and numbers''))"
  by (simp add: login_def isalnum_def Let_def)

text \<open>
  Claim C8 as stated fails in its only-if direction: \<^verbatim>\<open>str.isalnum\<close> also accepts
  numeric characters that are neither letters nor digits. The user name made of the one
  character with code point 188, the fraction one quarter, is not changed by
  \<^verbatim>\<open>strip\<close>, is not empty, is neither alphabetic nor a digit, and \<^verbatim>\<open>login\<close> calls
  the callback with it, which starts a session.
\<close>

theorem login_accepts_quarter_sign_counterexample:
  "strip quarter_name = quarter_name \<and> quarter_name \<noteq> []
   \<and> \<not> list_all spec_letter_or_digit quarter_name
   \<and> login quarter_name (ToDoApp_init Map.empty) = Inr (ToDoApp_init Map.empty quarter_name)
   \<and> ToDoApp_init Map.empty quarter_name =
        Inr \<lparr>storage = TaskStorage_init quarter_name, tasks = [], selected_index = None,
             task_name_entry = [], priority_var = ''Low'', due_date_entry = [],
             category_var = ''Personal'', files = Map.empty\<rparr>"
proof -
  have s: "strip quarter_name = quarter_name"
    by code_simp
  have n: "\<not> list_all spec_letter_or_digit quarter_name"
    by code_simp
  have a: "list_all isalnum_char quarter_name"
    by code_simp
  have "login quarter_name (ToDoApp_init Map.empty) = Inr (ToDoApp_init Map.empty quarter_name)"
    using a by (simp add: login_result s) (simp add: quarter_name_def)
  then show ?thesis
    using s n by (simp add: ToDoApp_init_def load_tasks_def) (simp add: quarter_name_def)
qed

text \<open>
  Claim C8, amended. \<^verbatim>\<open>login\<close> strips the text of the entry and calls the success
  callback, with the stripped text, exactly when that text is not empty and each of its
  characters is a letter, a digit or another numeric character (the test of
  \<^verbatim>\<open>str.isalnum\<close>); when the entry is ASCII text this is exactly: each character is a
  letter or a digit. Otherwise it shows an error box and the callback, which is what
  creates the session, is not called. \<^verbatim>\<open>alice1\<close> is accepted; the empty text,
  \<^verbatim>\<open>al ice\<close> and \<^verbatim>\<open>alice!\<close> are rejected.
\<close>

theorem login_accepts_alphanumeric:
  "((\<exists>r. login entry cb = Inr r) \<longleftrightarrow>
       strip entry \<noteq> [] \<and> list_all (\<lambda>c. spec_letter_or_digit c \<or> isnumeric c) (strip entry))
   \<and> (list_all ascii_char entry \<longrightarrow>
        ((\<exists>r. login entry cb = Inr r) \<longleftrightarrow>
           strip entry \<noteq> [] \<and> list_all spec_letter_or_digit (strip entry)))
   \<and> ((\<exists>r. login entry cb = Inr r) \<longrightarrow> login entry cb = Inr (cb (strip entry)))
   \<and> (\<not> (\<exists>r. login entry cb = Inr r) \<longrightarrow> (\<exists>m. login entry cb = Inl (showerror ''Error'' m)))
   \<and> login ''alice1'' cb = Inr (cb ''alice1'')
   \<and> login [] cb = Inl (showerror ''Error'' ''Please enter a username'')
   \<and> login ''al ice'' cb
        = Inl (showerror ''Error'' ''Username must contain only letters and numbers'')
   \<and> login ''alice!'' cb
        = Inl (showerror ''Error'' ''Username must contain only letters and numbers'')"
proof -
  have accepted: "(\<exists>r. login entry cb = Inr r) \<longleftrightarrow>
      strip entry \<noteq> [] \<and> list_all isalnum_char (strip entry)"
    by (auto simp add: login_result)
  have general: "list_all isalnum_char (strip entry) \<longleftrightarrow>
      list_all (\<lambda>c. spec_letter_or_digit c \<or> isnumeric c) (strip entry)"
    by (simp add: list_all_iff isalnum_char_iff)
  have ascii: "list_all isalnum_char (strip entry) \<longleftrightarrow>
      list_all spec_letter_or_digit (strip entry)" if "list_all ascii_char entry"
  proof -
    have "\<forall>c \<in> set (strip entry). ascii_char c"
      using that set_strip [of entry] by (auto simp add: list_all_iff)
    then show ?thesis
      by (auto simp add: list_all_iff ascii_isalnum_char_iff)
  qed
  have "(\<exists>r. login entry cb = Inr r) \<longrightarrow> login entry cb = Inr (cb (strip entry))"
    by (auto simp add: login_result split: if_splits)
  moreover have "\<not> (\<exists>r. login entry cb = Inr r)
      \<longrightarrow> (\<exists>m. login entry cb = Inl (showerror ''Error'' m))"
    by (auto simp add: login_result)
  moreover have "login ''alice1'' cb = Inr (cb ''alice1'')"
    by (simp add: login_def strip_examples isalnum_examples)
  moreover have "login [] cb = Inl (showerror ''Error'' ''Please enter a username'')"
    by (simp add: login_def strip_examples)
  moreover have "login ''al ice'' cb
      = Inl (showerror ''Error'' ''Username must contain only letters and numbers'')"
    by (simp add: login_def strip_examples isalnum_examples)
  moreover have "login ''alice!'' cb
      = Inl (showerror ''Error'' ''Username must contain only letters and numbers'')"
    by (simp add: login_def strip_examples isalnum_examples)
  ultimately show ?thesis
    using accepted general ascii by blast
qed

theorem login_accepts_alphanumeric_witness:
  "list_all ascii_char '' alice1 '' \<and> strip '' alice1 '' \<noteq> []
   \<and> list_all spec_letter_or_digit (strip '' alice1 '')
   \<and> login '' alice1 '' (ToDoApp_init Map.empty) = Inr (ToDoApp_init Map.empty ''alice1'')
   \<and> login ''alice!'' (ToDoApp_init Map.empty)
        = Inl (showerror ''Error'' ''Username must contain only letters and numbers'')"
proof -
  have a: "list_all ascii_char '' alice1 ''"
    by code_simp
  have l: "list_all spec_letter_or_digit ''alice1''"
    by code_simp
  have ok: "strip '' alice1 '' \<noteq> [] \<and> list_all spec_letter_or_digit (strip '' alice1 '')"
    using l by (simp add: strip_examples)
  show ?thesis
    using a ok login_accepts_alphanumeric [of "'' alice1 ''" "ToDoApp_init Map.empty"]
    by (simp add: strip_examples)
qed

section \<open>The date check\<close>

text \<open>
  Claim C3. The four vectors of the specification hold: \<^verbatim>\<open>validate_date\<close> accepts the
  empty text and \<^verbatim>\<open>2024-02-29\<close> and rejects \<^verbatim>\<open>2024-02-30\<close> and \<^verbatim>\<open>24-02-01\<close>. The general
  statement does not: \<^verbatim>\<open>validate_date\<close> also accepts \<^verbatim>\<open>2024-2-9\<close> and \<^verbatim>\<open>2024-02- 9\<close>,
  which are not of the form four digits, hyphen, two digits, hyphen, two digits, because
  the directives \<^verbatim>\<open>%m\<close> and \<^verbatim>\<open>%d\<close> of \<^verbatim>\<open>strptime\<close> take a single digit (and \<^verbatim>\<open>%d\<close> a
  blank and a digit) as well. The docstring of the function, the label of the entry and the
  text of the error box all name the format YYYY-MM-DD.
\<close>

theorem validate_date_accepts_short_fields:
  "validate_date [] \<and> validate_date ''2024-02-29'' \<and> \<not> validate_date ''2024-02-30''
   \<and> \<not> validate_date ''24-02-01''
   \<and> validate_date ''2024-2-9'' \<and> \<not> spec_fixed_format ''2024-2-9''
   \<and> validate_date ''2024-02- 9'' \<and> \<not> spec_fixed_format ''2024-02- 9''"
proof -
  have "validate_date ''2024-2-9''"
    by code_simp
  moreover have "\<not> spec_fixed_format ''2024-2-9''"
    by code_simp
  moreover have "validate_date ''2024-02- 9''"
    by code_simp
  moreover have "\<not> spec_fixed_format ''2024-02- 9''"
    by code_simp
  ultimately show ?thesis
    by (simp add: validate_date_vectors)
qed

section \<open>The invariant of the tasks\<close>

lemma task_invariant_new_task:
  "strip (task_name_entry s) \<noteq> [] \<Longrightarrow> validate_date (strip (due_date_entry s)) \<Longrightarrow>
     task_invariant (new_task s)"
  by (simp add: task_invariant_def new_task_def Task_def)

lemma task_invariant_edited:
  "strip (task_name_entry s) \<noteq> [] \<Longrightarrow> validate_date (strip (due_date_entry s)) \<Longrightarrow>
     task_invariant t \<Longrightarrow> task_invariant (edited s t)"
  by (simp add: task_invariant_def edited_def)

lemma task_invariant_completed:
  "task_invariant t \<Longrightarrow> task_invariant (t\<lparr>status := PyStr ''Completed''\<rparr>)"
  by (simp add: task_invariant_def)

lemma list_all_update:
  "list_all P xs \<Longrightarrow> P x \<Longrightarrow> list_all P (xs[i := x])"
  using set_update_subset_insert [of xs i x] by (auto simp add: list_all_iff)

lemma list_all_remove:
  "list_all P xs \<Longrightarrow> list_all P (take i xs @ drop (Suc i) xs)"
  by (auto simp add: list_all_iff dest: in_set_takeD in_set_dropD)

lemma add_task_invariant:
  assumes "list_all task_invariant (tasks s)"
  shows "list_all task_invariant (tasks (snd (add_task s)))"
proof (cases "strip (task_name_entry s) \<noteq> [] \<and> validate_date (strip (due_date_entry s))")
  case True
  then show ?thesis
    using assms by (simp add: add_task_valid task_invariant_new_task)
next
  case False
  then have "snd (add_task s) = s"
    by (auto simp add: add_task_def get_form_data_def)
  then show ?thesis using assms by simp
qed

lemma update_task_invariant:
  assumes "list_all task_invariant (tasks s)" and "update_task s = Inr (m, s')"
  shows "list_all task_invariant (tasks s')"
proof (cases "selected_index s")
  case None
  then show ?thesis using assms by (simp add: update_task_def)
next
  case (Some i)
  show ?thesis
  proof (cases "strip (task_name_entry s) \<noteq> [] \<and> validate_date (strip (due_date_entry s))")
    case False
    then have "s' = s"
      using assms(2) Some
      by (auto simp add: update_task_def get_form_data_def split: if_splits)
    then show ?thesis using assms(1) by simp
  next
    case True
    then have i: "i < length (tasks s)"
      using assms(2) Some
      by (auto simp add: update_task_def get_form_data_def task_at_def split: if_splits)
    then have "s' = flush (s\<lparr>tasks := (tasks s)[i := edited s (tasks s ! i)]\<rparr>)"
      using assms(2) Some True by (simp add: update_task_valid)
    moreover have "task_invariant (tasks s ! i)"
      using assms(1) i by (simp add: list_all_length)
    ultimately show ?thesis
      using assms(1) True by (simp add: list_all_update task_invariant_edited)
  qed
qed

lemma delete_task_invariant:
  assumes "list_all task_invariant (tasks s)" and "delete_task yes s = Inr (m, s')"
  shows "list_all task_invariant (tasks s')"
proof (cases "selected_index s")
  case None
  then show ?thesis using assms by (simp add: delete_task_def)
next
  case (Some i)
  have kept: "list_all task_invariant (take i (tasks s) @ drop (Suc i) (tasks s))"
    using assms(1) by (rule list_all_remove)
  show ?thesis
  proof (cases "i < length (tasks s) \<and> yes")
    case True
    then have "s' = (clear_form (flush (s\<lparr>tasks := take i (tasks s) @ drop (Suc i) (tasks s)\<rparr>)))
        \<lparr>selected_index := None\<rparr>"
      using assms(2) Some by (simp add: delete_task_valid)
    then have "tasks s' = take i (tasks s) @ drop (Suc i) (tasks s)"
      by simp
    then show ?thesis using kept by simp
  next
    case False
    then have "s' = s"
      using assms(2) Some by (auto simp add: delete_task_def task_at_def split: if_splits)
    then show ?thesis using assms(1) by simp
  qed
qed

lemma mark_completed_invariant:
  assumes "list_all task_invariant (tasks s)" and "mark_completed s = Inr (m, s')"
  shows "list_all task_invariant (tasks s')"
proof (cases "selected_index s")
  case None
  then show ?thesis using assms by (simp add: mark_completed_def)
next
  case (Some i)
  show ?thesis
  proof (cases "i < length (tasks s)")
    case False
    then show ?thesis using assms(2) Some by (simp add: mark_completed_def task_at_def)
  next
    case True
    then have "task_invariant (tasks s ! i)"
      using assms(1) by (simp add: list_all_length)
    then show ?thesis
      using assms Some True
      by (auto simp add: mark_completed_def task_at_def Let_def list_all_update
            task_invariant_completed split: if_splits)
  qed
qed

text \<open>
  Claim C9 as stated fails at the start of a session: \<^verbatim>\<open>load_tasks\<close> checks that the
  five keys are there and nothing about their values. From a file whose record has a null
  name and the due date \<^verbatim>\<open>2024-02-30\<close>, the session starts with a task whose name is
  \<^verbatim>\<open>None\<close> and whose due date does not parse.
\<close>

theorem load_keeps_unchecked_values_counterexample:
  "ToDoApp_init hand_edited_disk ''alice1'' =
      Inr \<lparr>storage = TaskStorage_init ''alice1'',
           tasks = [Task PyNone (PyStr ''High'') (PyStr ''2024-02-30'') (PyStr ''Work'')
                      (PyStr ''Pending'')],
           selected_index = None, task_name_entry = [], priority_var = ''Low'',
           due_date_entry = [], category_var = ''Personal'', files = hand_edited_disk\<rparr>
   \<and> \<not> task_invariant (Task PyNone (PyStr ''High'') (PyStr ''2024-02-30'') (PyStr ''Work'')
                      (PyStr ''Pending''))
   \<and> \<not> validate_date ''2024-02-30''"
  by (simp add: ToDoApp_init_def TaskStorage_init_def hand_edited_disk_def load_tasks_def
        load_body_def from_dict_def Task_def task_invariant_def validate_date_vectors)

text \<open>
  Claim C9, amended. The invariant (no field is null, the name is not empty, the due date
  is a text that is empty or parses) is kept by every operation on the store: if it holds
  for every task before \<^verbatim>\<open>add_task\<close>, \<^verbatim>\<open>update_task\<close>, \<^verbatim>\<open>delete_task\<close> or
  \<^verbatim>\<open>mark_completed\<close>, it holds for every task afterwards, and for every task loaded from
  the file that \<^verbatim>\<open>save_tasks\<close> writes for such a list. A session that starts from a file
  written by hand has the values of that file, checked or not.
\<close>

theorem task_invariant_preserved:
  assumes "list_all task_invariant (tasks s)"
  shows "list_all task_invariant (tasks (snd (add_task s)))
     \<and> (\<forall>m s'. update_task s = Inr (m, s') \<longrightarrow> list_all task_invariant (tasks s'))
     \<and> (\<forall>m s'. delete_task yes s = Inr (m, s') \<longrightarrow> list_all task_invariant (tasks s'))
     \<and> (\<forall>m s'. mark_completed s = Inr (m, s') \<longrightarrow> list_all task_invariant (tasks s'))
     \<and> (\<forall>ts. load_tasks (storage s) (save_tasks (storage s) (tasks s) dsk) = Inr ts
           \<longrightarrow> list_all task_invariant ts)"
proof (intro conjI allI impI)
  show "list_all task_invariant (tasks (snd (add_task s)))"
    using assms by (rule add_task_invariant)
next
  fix m s' assume "update_task s = Inr (m, s')"
  with assms show "list_all task_invariant (tasks s')"
    by (rule update_task_invariant)
next
  fix m s' assume "delete_task yes s = Inr (m, s')"
  with assms show "list_all task_invariant (tasks s')"
    by (rule delete_task_invariant)
next
  fix m s' assume "mark_completed s = Inr (m, s')"
  with assms show "list_all task_invariant (tasks s')"
    by (rule mark_completed_invariant)
next
  fix ts assume "load_tasks (storage s) (save_tasks (storage s) (tasks s) dsk) = Inr ts"
  then have "ts = tasks s"
    by (simp add: load_tasks_save_tasks)
  with assms show "list_all task_invariant ts"
    by simp
qed

theorem task_invariant_preserved_witness:
  "list_all task_invariant (tasks example_app)
   \<and> tasks (snd (add_task example_app)) = [example_task_0, example_task_1, new_task example_app]
   \<and> list_all task_invariant [example_task_0, example_task_1, new_task example_app]
   \<and> mark_completed example_app
       = Inr (showinfo ''Success'' ''Task marked as completed!'',
              flush (example_app\<lparr>tasks :=
                 [example_task_0, example_task_1\<lparr>status := PyStr ''Completed''\<rparr>]\<rparr>))
   \<and> list_all task_invariant [example_task_0, example_task_1\<lparr>status := PyStr ''Completed''\<rparr>]"
proof -
  have h: "list_all task_invariant (tasks example_app)"
    by (simp add: example_form task_invariant_def example_task_0_def example_task_1_def
          Task_def validate_date_vectors)
  have added: "tasks (snd (add_task example_app))
      = [example_task_0, example_task_1, new_task example_app]"
    by (simp add: add_task_valid example_form validate_date_vectors)
  have marked: "mark_completed example_app
      = Inr (showinfo ''Success'' ''Task marked as completed!'',
             flush (example_app\<lparr>tasks :=
                [example_task_0, example_task_1\<lparr>status := PyStr ''Completed''\<rparr>]\<rparr>))"
    by (simp add: mark_completed_def task_at_def example_form example_task_1_def Task_def)
  have "list_all task_invariant [example_task_0, example_task_1, new_task example_app]"
    using task_invariant_preserved [OF h] added by simp
  moreover have
    "list_all task_invariant [example_task_0, example_task_1\<lparr>status := PyStr ''Completed''\<rparr>]"
    using task_invariant_preserved [OF h] marked by simp
  ultimately show ?thesis
    using h added marked by blast
qed

end
